theory Spec2Isabelle
  imports Complex_Main "HOL-Library.AList"
begin

section \<open>The H-R diagram maker: data model\<close>

text \<open>
  The program (\<^verbatim>\<open>HR_app.py\<close>) reads an uploaded CSV file with pandas, checks
  that five columns are present, derives three display columns from the star-type
  code, and configures a matplotlib figure.

  A cell of a table is a number, a missing value (pandas' NaN) or a text. Numbers are
  exact reals: the rounding of IEEE doubles is not part of this model. A column
  (pandas' Series) is a list of cells, and a table (pandas' DataFrame) is the ordered
  list of its named columns, as pandas stores it.
\<close>

datatype cell = Num real | NaN | Str string

type_synonym series = "cell list"

type_synonym dataframe = "(string \<times> series) list"

text \<open>The exceptions of Python that the program can meet.\<close>

datatype py_error = KeyError | IndexError | TypeError | ValueError

definition bind :: "py_error + 'a \<Rightarrow> ('a \<Rightarrow> py_error + 'b) \<Rightarrow> py_error + 'b" where
  "bind m f = (case m of Inl e \<Rightarrow> Inl e | Inr x \<Rightarrow> f x)"

text \<open>\<^verbatim>\<open>df.columns\<close>, \<^verbatim>\<open>df[c]\<close> (KeyError on an absent column) and
  \<^verbatim>\<open>df[c] = s\<close> (an existing column is replaced where it stands, a new one is
  appended).\<close>

definition columns :: "dataframe \<Rightarrow> string list" where
  "columns df = map fst df"

definition getitem :: "dataframe \<Rightarrow> string \<Rightarrow> py_error + series" where
  "getitem df c = (case map_of df c of None \<Rightarrow> Inl KeyError | Some s \<Rightarrow> Inr s)"

definition setitem :: "dataframe \<Rightarrow> string \<Rightarrow> series \<Rightarrow> dataframe" where
  "setitem df c s = AList.update c s df"

text \<open>A table read from a file has all its columns of one length, the number of rows.\<close>

definition wf_frame :: "dataframe \<Rightarrow> bool" where
  "wf_frame df = list_all (\<lambda>p. length (snd p) = length (snd (hd df))) df"

text \<open>\<^verbatim>\<open>df.empty\<close>: no column, or no row.\<close>

definition empty :: "dataframe \<Rightarrow> bool" where
  "empty df = (case df of [] \<Rightarrow> True | p # _ \<Rightarrow> snd p = [])"

text \<open>\<^verbatim>\<open>Series.map(f)\<close> calls \<open>f\<close> on every cell, in order; the first exception
  ends it.\<close>

fun series_map :: "(cell \<Rightarrow> py_error + cell) \<Rightarrow> series \<Rightarrow> py_error + series" where
  "series_map f [] = Inr []"
| "series_map f (x # xs) =
     (case f x of
        Inl e \<Rightarrow> Inl e
      | Inr y \<Rightarrow> (case series_map f xs of Inl e \<Rightarrow> Inl e | Inr ys \<Rightarrow> Inr (y # ys)))"

text \<open>\<^verbatim>\<open>Series.unique()\<close>: the distinct values in the order of their first
  appearance (a hash table of the values seen so far).\<close>

fun unique_from :: "'a list \<Rightarrow> 'a list \<Rightarrow> 'a list" where
  "unique_from seen [] = []"
| "unique_from seen (x # xs) =
     (if x \<in> set seen then unique_from seen xs else x # unique_from (x # seen) xs)"

definition unique :: "'a list \<Rightarrow> 'a list" where
  "unique xs = unique_from [] xs"

text \<open>\<^verbatim>\<open>series == v\<close>: the elementwise comparison; NaN equals nothing.\<close>

definition cell_eq :: "cell \<Rightarrow> cell \<Rightarrow> bool" where
  "cell_eq a b = (a \<noteq> NaN \<and> a = b)"

definition series_eq :: "series \<Rightarrow> cell \<Rightarrow> bool list" where
  "series_eq s v = map (\<lambda>a. cell_eq a v) s"

text \<open>\<^verbatim>\<open>df[mask]\<close>: the rows where the mask is true, in every column.\<close>

definition select :: "bool list \<Rightarrow> 'a list \<Rightarrow> 'a list" where
  "select msk s = map snd (filter fst (zip msk s))"

definition df_filter :: "bool list \<Rightarrow> dataframe \<Rightarrow> dataframe" where
  "df_filter msk df = map (\<lambda>p. (fst p, select msk (snd p))) df"

section \<open>The user interface\<close>

text \<open>
  What one run of the script leaves on the page: the messages of \<^verbatim>\<open>st.error\<close>
  and \<^verbatim>\<open>st.info\<close>, and the figure given to \<^verbatim>\<open>st.pyplot\<close>. The page
  title and the sidebar text are fixed and left out.
\<close>

datatype scale = Linear | Log

datatype limits = Auto bool | Fixed real real

datatype locator = LogLocator real "real list"

record scatter_call =
  sc_x :: series
  sc_y :: series
  sc_c :: cell
  sc_s :: cell
  sc_label :: cell

record axes =
  scatters :: "scatter_call list"
  xscale :: scale
  yscale :: scale
  xlim :: limits
  ylim :: limits
  xticks :: "real list option"
  xticklabels :: "string list option"
  yticks :: "real list option"
  yticklabels :: "string list option"
  xminor :: "locator option"
  yminor :: "locator option"
  xlabel :: string
  ylabel :: string
  title :: string
  legend :: "string option"
  grid :: bool

record figure =
  primary :: axes
  spectral :: axes
  luminosity :: axes

record ui =
  errors :: "string list"
  infos :: "string list"
  shown :: "figure option"

definition st_error :: "string \<Rightarrow> ui \<Rightarrow> ui" where
  "st_error msg u = u\<lparr>errors := errors u @ [msg]\<rparr>"

definition st_info :: "string \<Rightarrow> ui \<Rightarrow> ui" where
  "st_info msg u = u\<lparr>infos := infos u @ [msg]\<rparr>"

definition st_pyplot :: "figure \<Rightarrow> ui \<Rightarrow> ui" where
  "st_pyplot fig u = u\<lparr>shown := Some fig\<rparr>"

definition empty_page :: ui where
  "empty_page = \<lparr>errors = [], infos = [], shown = None\<rparr>"

section \<open>The loader\<close>

text \<open>
  An uploaded file is described by what \<^verbatim>\<open>pd.read_csv\<close> does with it: it raises
  an exception with a message, or it returns the table of the file's header and rows.
\<close>

datatype csv_file = Malformed string | Table dataframe

definition read_csv :: "csv_file \<Rightarrow> string + dataframe" where
  "read_csv f = (case f of Malformed msg \<Rightarrow> Inl msg | Table df \<Rightarrow> Inr df)"

definition required_columns :: "string list" where
  "required_columns =
     [''Temperature (K)'', ''Luminosity(L/Lo)'', ''Absolute magnitude(Mv)'',
      ''Star type'', ''Spectral Class'']"

definition load_data :: "csv_file \<Rightarrow> ui \<Rightarrow> dataframe option \<times> ui" where
  "load_data uploaded_file u =
     (case read_csv uploaded_file of
        Inl e \<Rightarrow> (None, st_error (''Error loading data: '' @ e) u)
      | Inr df \<Rightarrow>
          if \<not> list_all (\<lambda>col. col \<in> set (columns df)) required_columns
          then (None, st_error ''Dataset is missing one or more required columns.'' u)
          else (Some df, u))"

section \<open>The classifier\<close>

definition star_type_map :: "(int \<times> (string \<times> nat \<times> string)) list" where
  "star_type_map =
     [(0, (''Red Dwarf'', 30, ''red'')),
      (1, (''Brown Dwarf'', 20, ''maroon'')),
      (2, (''White Dwarf'', 25, ''green'')),
      (3, (''Main Sequence'', 50, ''blue'')),
      (4, (''Giant'', 80, ''orange'')),
      (5, (''Supergiant'', 100, ''purple''))]"

text \<open>\<^verbatim>\<open>star_type_map[x]\<close>: a number finds the integer key it equals (Python
  hashes \<open>3.0\<close> as \<open>3\<close>); anything else is a KeyError.\<close>

definition lookup :: "cell \<Rightarrow> py_error + (string \<times> nat \<times> string)" where
  "lookup x =
     (case x of
        Num r \<Rightarrow>
          (if r = of_int \<lfloor>r\<rfloor>
           then (case map_of star_type_map \<lfloor>r\<rfloor> of None \<Rightarrow> Inl KeyError | Some v \<Rightarrow> Inr v)
           else Inl KeyError)
      | _ \<Rightarrow> Inl KeyError)"

definition map_star_types :: "dataframe \<Rightarrow> py_error + dataframe" where
  "map_star_types df =
     bind (getitem df ''Star type'') (\<lambda>col1.
     bind (series_map (\<lambda>x. bind (lookup x) (\<lambda>v. Inr (Str (fst v)))) col1) (\<lambda>labels.
     let df1 = setitem df ''Star type label'' labels in
     bind (getitem df1 ''Star type'') (\<lambda>col2.
     bind (series_map (\<lambda>x. bind (lookup x) (\<lambda>v. Inr (Num (real (fst (snd v)))))) col2) (\<lambda>sizes.
     let df2 = setitem df1 ''Marker size'' sizes in
     bind (getitem df2 ''Star type'') (\<lambda>col3.
     bind (series_map (\<lambda>x. bind (lookup x) (\<lambda>v. Inr (Str (snd (snd v))))) col3) (\<lambda>colors.
     Inr (setitem df2 ''Color'' colors)))))))"

section \<open>The axes of matplotlib\<close>

text \<open>
  An axes object is the record of what the program asked of it: the scatter series, the
  scales, the limits, the fixed ticks and their labels, the locator of the minor ticks,
  the labels, the legend's title and the grid. How matplotlib turns these into pixels,
  and the constant styling (font sizes, transparency, edge colours, the tick formatter,
  the layout), is not modelled. Limits are \<open>Auto\<close> (chosen by matplotlib from the
  data, with the direction given) until \<^verbatim>\<open>set_xlim\<close> fixes them; a float is
  \<open>real option\<close>, with \<open>None\<close> for NaN, which \<^verbatim>\<open>set_xlim\<close> and
  \<^verbatim>\<open>set_ylim\<close> refuse with a ValueError.
\<close>

definition new_axes :: axes where
  "new_axes =
     \<lparr>scatters = [], xscale = Linear, yscale = Linear, xlim = Auto False, ylim = Auto False,
      xticks = None, xticklabels = None, yticks = None, yticklabels = None,
      xminor = None, yminor = None, xlabel = [], ylabel = [], title = [],
      legend = None, grid = False\<rparr>"

definition scatter :: "axes \<Rightarrow> series \<Rightarrow> series \<Rightarrow> cell \<Rightarrow> cell \<Rightarrow> cell \<Rightarrow> axes" where
  "scatter ax x y c s l =
     ax\<lparr>scatters := scatters ax @ [\<lparr>sc_x = x, sc_y = y, sc_c = c, sc_s = s, sc_label = l\<rparr>]\<rparr>"

definition invert :: "limits \<Rightarrow> limits" where
  "invert l = (case l of Auto b \<Rightarrow> Auto (\<not> b) | Fixed a b \<Rightarrow> Fixed b a)"

definition invert_xaxis :: "axes \<Rightarrow> axes" where
  "invert_xaxis ax = ax\<lparr>xlim := invert (xlim ax)\<rparr>"

definition invert_yaxis :: "axes \<Rightarrow> axes" where
  "invert_yaxis ax = ax\<lparr>ylim := invert (ylim ax)\<rparr>"

definition set_xlim :: "real option \<Rightarrow> real option \<Rightarrow> axes \<Rightarrow> py_error + axes" where
  "set_xlim l r ax =
     (case l of
        None \<Rightarrow> Inl ValueError
      | Some a \<Rightarrow> (case r of None \<Rightarrow> Inl ValueError | Some b \<Rightarrow> Inr (ax\<lparr>xlim := Fixed a b\<rparr>)))"

definition set_ylim :: "real option \<Rightarrow> real option \<Rightarrow> axes \<Rightarrow> py_error + axes" where
  "set_ylim l r ax =
     (case l of
        None \<Rightarrow> Inl ValueError
      | Some a \<Rightarrow> (case r of None \<Rightarrow> Inl ValueError | Some b \<Rightarrow> Inr (ax\<lparr>ylim := Fixed a b\<rparr>)))"

section \<open>Reductions of a column\<close>

text \<open>
  \<^verbatim>\<open>Series.min()\<close> and \<^verbatim>\<open>Series.max()\<close> skip the missing values and give
  NaN when nothing is left, in particular on a column with no row. On a column holding
  text, the reduction or the multiplication that follows it raises a TypeError; the
  model raises it at the reduction.
\<close>

fun numbers :: "series \<Rightarrow> real list" where
  "numbers [] = []"
| "numbers (Num r # xs) = r # numbers xs"
| "numbers (NaN # xs) = numbers xs"
| "numbers (Str t # xs) = numbers xs"

fun is_text :: "cell \<Rightarrow> bool" where
  "is_text (Str t) = True"
| "is_text (Num r) = False"
| "is_text NaN = False"

definition series_min :: "series \<Rightarrow> py_error + real option" where
  "series_min s =
     (if list_ex is_text s then Inl TypeError
      else if numbers s = [] then Inr None
      else Inr (Some (Min (set (numbers s)))))"

definition series_max :: "series \<Rightarrow> py_error + real option" where
  "series_max s =
     (if list_ex is_text s then Inl TypeError
      else if numbers s = [] then Inr None
      else Inr (Some (Max (set (numbers s)))))"

section \<open>The axis builders\<close>

definition create_spectral_class_axis ::
  "axes \<Rightarrow> real option \<times> real option \<Rightarrow> py_error + axes" where
  "create_spectral_class_axis ax temp_range =
     (let spectral_classes = [''O'', ''B'', ''A'', ''F'', ''G'', ''K'', ''M''];
          temp_bounds = [40000, 30000, 10000, 7500, 6000, 3700, 2000];
          ax2 = new_axes;
          ax2 = ax2\<lparr>xscale := Log\<rparr>
      in bind (set_xlim (fst temp_range) (snd temp_range) ax2) (\<lambda>ax2.
         let ax2 = ax2\<lparr>xticks := Some temp_bounds\<rparr>;
             ax2 = ax2\<lparr>xticklabels := Some spectral_classes\<rparr>;
             ax2 = ax2\<lparr>xlabel := ''Spectral Class''\<rparr>;
             ax2 = invert_xaxis ax2
         in Inr ax2))"

text \<open>Python's \<^verbatim>\<open>str\<close> of an integer, for the labels of the luminosity ticks.\<close>

fun str_nat :: "nat \<Rightarrow> string" where
  "str_nat n =
     (if n < 10 then [''0123456789'' ! n]
      else str_nat (n div 10) @ [''0123456789'' ! (n mod 10)])"

definition str_int :: "int \<Rightarrow> string" where
  "str_int i = (if i < 0 then ''-'' @ str_nat (nat (- i)) else str_nat (nat i))"

definition create_luminosity_axis ::
  "axes \<Rightarrow> real option \<times> real option \<Rightarrow> py_error + axes" where
  "create_luminosity_axis ax mv_range =
     (let ax3 = new_axes;
          l_min = 1 / 1000000;
          l_max = 1000000;
          ax3 = ax3\<lparr>yscale := Log\<rparr>
      in bind (set_ylim (Some l_min) (Some l_max) ax3) (\<lambda>ax3.
         let l_ticks = map (\<lambda>i. 10 powi i) [-6..6];
             l_labels = map (\<lambda>i. ''$10^{'' @ str_int i @ ''}$'') [-6..6];
             ax3 = ax3\<lparr>yticks := Some l_ticks\<rparr>;
             ax3 = ax3\<lparr>yticklabels := Some l_labels\<rparr>;
             ax3 = ax3\<lparr>yminor := Some (LogLocator 10 (map real [1..<10]))\<rparr>;
             ax3 = ax3\<lparr>ylabel := ''Luminosity (L/Lo)''\<rparr>
         in Inr ax3))"

section \<open>The renderer\<close>

definition iloc0 :: "series \<Rightarrow> py_error + cell" where
  "iloc0 s = (case s of [] \<Rightarrow> Inl IndexError | x # _ \<Rightarrow> Inr x)"

text \<open>The body of the loop over the pairs of a label and a colour.\<close>

definition draw_group :: "dataframe \<Rightarrow> cell \<times> cell \<Rightarrow> axes \<Rightarrow> py_error + axes" where
  "draw_group df p ax =
     (let s_type = fst p; color = snd p in
      bind (getitem df ''Star type label'') (\<lambda>labels.
      let subset = df_filter (series_eq labels s_type) df in
      if \<not> empty subset then
        bind (getitem subset ''Temperature (K)'') (\<lambda>x.
        bind (getitem subset ''Absolute magnitude(Mv)'') (\<lambda>y.
        bind (getitem subset ''Marker size'') (\<lambda>ms.
        bind (iloc0 ms) (\<lambda>s.
        Inr (scatter ax x y color s s_type)))))
      else Inr ax))"

fun for_each :: "('a \<Rightarrow> 's \<Rightarrow> py_error + 's) \<Rightarrow> 'a list \<Rightarrow> 's \<Rightarrow> py_error + 's" where
  "for_each f [] s = Inr s"
| "for_each f (x # xs) s = (case f x s of Inl e \<Rightarrow> Inl e | Inr s' \<Rightarrow> for_each f xs s')"

definition draw_series :: "dataframe \<Rightarrow> axes \<Rightarrow> py_error + axes" where
  "draw_series df ax =
     bind (getitem df ''Star type label'') (\<lambda>labels.
     bind (getitem df ''Color'') (\<lambda>colors.
     for_each (draw_group df) (zip (unique labels) (unique colors)) ax))"

definition scaled :: "real option \<Rightarrow> real \<Rightarrow> real option" where
  "scaled v k = map_option (\<lambda>t. t * k) v"

definition shifted :: "real option \<Rightarrow> real \<Rightarrow> real option" where
  "shifted v k = map_option (\<lambda>t. t + k) v"

definition plot_hr_diagram :: "dataframe \<Rightarrow> py_error + figure" where
  "plot_hr_diagram df =
     bind (draw_series df new_axes) (\<lambda>ax.
     let ax = ax\<lparr>xscale := Log\<rparr>;
         ax = invert_xaxis ax;
         ax = invert_yaxis ax;
         ax = ax\<lparr>xlabel := ''Temperature (K)''\<rparr>;
         ax = ax\<lparr>ylabel := ''Absolute Magnitude (Mv)''\<rparr>;
         ax = ax\<lparr>title := ''Hertzsprung-Russell Diagram''\<rparr>;
         ax = ax\<lparr>legend := Some ''Stellar Classification''\<rparr>;
         ax = ax\<lparr>grid := True\<rparr>
     in
     bind (getitem df ''Temperature (K)'') (\<lambda>t1.
     bind (series_min t1) (\<lambda>tmn.
     bind (getitem df ''Temperature (K)'') (\<lambda>t2.
     bind (series_max t2) (\<lambda>tmx.
     let temp_min = scaled tmn (9 / 10); temp_max = scaled tmx (11 / 10) in
     bind (getitem df ''Absolute magnitude(Mv)'') (\<lambda>m1.
     bind (series_min m1) (\<lambda>mmn.
     bind (getitem df ''Absolute magnitude(Mv)'') (\<lambda>m2.
     bind (series_max m2) (\<lambda>mmx.
     let mv_min = shifted mmn (- 1); mv_max = shifted mmx 1 in
     bind (set_xlim temp_max temp_min ax) (\<lambda>ax.
     bind (set_ylim mv_max mv_min ax) (\<lambda>ax.
     let major_ticks = [40000, 30000, 20000, 10000, 7500, 6000, 5000, 3000];
         ax = ax\<lparr>xticks := Some major_ticks\<rparr>;
         ax = ax\<lparr>xminor := Some (LogLocator 10 (map real [2..<10]))\<rparr>
     in
     bind (create_spectral_class_axis ax (temp_min, temp_max)) (\<lambda>ax2.
     bind (create_luminosity_axis ax (mv_min, mv_max)) (\<lambda>ax3.
     Inr \<lparr>primary = ax, spectral = ax2, luminosity = ax3\<rparr>)))))))))))))"

section \<open>The script\<close>

text \<open>
  One run of the script on the file of the upload widget (\<open>None\<close>: nothing uploaded
  yet), from the page \<open>u\<close>. \<open>Inl e\<close>: the exception \<open>e\<close> left the script uncaught.
\<close>

definition main_app :: "csv_file option \<Rightarrow> ui \<Rightarrow> py_error + ui" where
  "main_app uploaded_file u =
     (case uploaded_file of
        None \<Rightarrow> Inr (st_info ''Please upload a CSV file to generate the H-R diagram.'' u)
      | Some f \<Rightarrow>
          (case load_data f u of
             (None, u1) \<Rightarrow> Inr u1
           | (Some df, u1) \<Rightarrow>
               bind (map_star_types df) (\<lambda>df.
               bind (plot_hr_diagram df) (\<lambda>fig.
               Inr (st_pyplot fig u1)))))"

section \<open>The table of the specification and sample tables\<close>

text \<open>
  The fixed table as the specification lists it, from the code of a star type to its
  label, marker size and colour. It is compared below with what \<open>map_star_types\<close>
  computes from \<open>star_type_map\<close>.
\<close>

definition spec_table :: "int \<Rightarrow> string \<times> nat \<times> string" where
  "spec_table k =
     (if k = 0 then (''Red Dwarf'', 30, ''red'')
      else if k = 1 then (''Brown Dwarf'', 20, ''maroon'')
      else if k = 2 then (''White Dwarf'', 25, ''green'')
      else if k = 3 then (''Main Sequence'', 50, ''blue'')
      else if k = 4 then (''Giant'', 80, ''orange'')
      else (''Supergiant'', 100, ''purple''))"

text \<open>The table of a file with one row, the Sun; the same with the star type 6.\<close>

definition sun :: dataframe where
  "sun = [(''Temperature (K)'', [Num 5778]), (''Luminosity(L/Lo)'', [Num 1]),
          (''Absolute magnitude(Mv)'', [Num (483 / 100)]), (''Star type'', [Num 3]),
          (''Spectral Class'', [Str ''G''])]"

definition type6 :: dataframe where
  "type6 = [(''Temperature (K)'', [Num 5778]), (''Luminosity(L/Lo)'', [Num 1]),
          (''Absolute magnitude(Mv)'', [Num (483 / 100)]), (''Star type'', [Num 6]),
          (''Spectral Class'', [Str ''G''])]"

section \<open>Notions used in the statements\<close>

text \<open>The number of rows of a table, read off its first column.\<close>

definition nrows :: "dataframe \<Rightarrow> nat" where
  "nrows df = length (snd (hd df))"

text \<open>
  The cell holding the star-type code \<open>k\<close>, and the three cells that the table of the
  specification gives for it; \<open>classified df ks\<close> is the table \<open>df\<close> with the three
  derived columns for the codes \<open>ks\<close>, and \<open>group_series ks ts ms k\<close> the scatter
  series of the rows whose code is \<open>k\<close>.
\<close>

definition code_cell :: "int \<Rightarrow> cell" where
  "code_cell k = Num (of_int k)"

definition spec_label :: "int \<Rightarrow> cell" where
  "spec_label k = Str (fst (spec_table k))"

definition spec_size :: "int \<Rightarrow> cell" where
  "spec_size k = Num (real (fst (snd (spec_table k))))"

definition spec_color :: "int \<Rightarrow> cell" where
  "spec_color k = Str (snd (snd (spec_table k)))"

definition classified :: "dataframe \<Rightarrow> int list \<Rightarrow> dataframe" where
  "classified df ks =
     setitem (setitem (setitem df ''Star type label'' (map spec_label ks))
       ''Marker size'' (map spec_size ks)) ''Color'' (map spec_color ks)"

definition group_series :: "int list \<Rightarrow> series \<Rightarrow> series \<Rightarrow> int \<Rightarrow> scatter_call" where
  "group_series ks ts ms k =
     \<lparr>sc_x = select (map (\<lambda>j. j = k) ks) ts, sc_y = select (map (\<lambda>j. j = k) ks) ms,
      sc_c = spec_color k, sc_s = spec_size k, sc_label = spec_label k\<rparr>"

text \<open>The table of a file that has the header line and no row.\<close>

definition header_only :: dataframe where
  "header_only = map (\<lambda>c. (c, [])) required_columns"

text \<open>A table of three rows with two star types.\<close>

definition three_stars :: dataframe where
  "three_stars =
     [(''Temperature (K)'', [Num 5778, Num 3042, Num 9940]),
      (''Luminosity(L/Lo)'', [Num 1, Num (5 / 10000), Num (254 / 10)]),
      (''Absolute magnitude(Mv)'', [Num (483 / 100), Num (156 / 10), Num (142 / 100)]),
      (''Star type'', [Num 3, Num 0, Num 3]),
      (''Spectral Class'', [Str ''G'', Str ''M'', Str ''A''])]"

text \<open>
  Two tables with the same columns in the same order, of the same lengths, and the same
  cells everywhere but in the column \<open>c\<close>.
\<close>

definition same_except :: "string \<Rightarrow> dataframe \<Rightarrow> dataframe \<Rightarrow> bool" where
  "same_except c df1 df2 =
     list_all2 (\<lambda>p q. fst p = fst q \<and> length (snd p) = length (snd q) \<and>
                       (fst p = c \<or> snd p = snd q)) df1 df2"

text \<open>The table of the Sun with another luminosity.\<close>

definition sun_brighter :: dataframe where
  "sun_brighter = setitem sun ''Luminosity(L/Lo)'' [Num 1000]"

section \<open>Lemmas\<close>

subsection \<open>Exceptions, tables and the table of star types\<close>

lemma bind_Inr [simp]: "bind (Inr x) f = f x"
  by (simp add: bind_def)

lemma bind_Inl [simp]: "bind (Inl e) f = Inl e"
  by (simp add: bind_def)

lemma bind_eq_Inr: "bind m f = Inr y \<longleftrightarrow> (\<exists>x. m = Inr x \<and> f x = Inr y)"
  by (cases m) simp_all

lemma getitem_setitem: "getitem (setitem df c s) c' = (if c' = c then Inr s else getitem df c')"
  by (simp add: getitem_def setitem_def update_conv')


lemma map_of_star_type_map:
  "map_of star_type_map k = Some v \<longleftrightarrow>
     (k = 0 \<and> v = (''Red Dwarf'', 30, ''red'') \<or> k = 1 \<and> v = (''Brown Dwarf'', 20, ''maroon'') \<or>
      k = 2 \<and> v = (''White Dwarf'', 25, ''green'') \<or> k = 3 \<and> v = (''Main Sequence'', 50, ''blue'') \<or>
      k = 4 \<and> v = (''Giant'', 80, ''orange'') \<or> k = 5 \<and> v = (''Supergiant'', 100, ''purple''))"
  by (auto simp: star_type_map_def)

lemma lookup_Inr:
  "lookup x = Inr v \<longleftrightarrow> (\<exists>k. x = Num (of_int k) \<and> map_of star_type_map k = Some v)"
proof
  assume "lookup x = Inr v"
  then show "\<exists>k. x = Num (of_int k) \<and> map_of star_type_map k = Some v"
    by (cases x) (auto simp: lookup_def split: if_splits option.splits)
next
  assume "\<exists>k. x = Num (of_int k) \<and> map_of star_type_map k = Some v"
  then show "lookup x = Inr v"
    by (auto simp: lookup_def)
qed

lemma lookup_code:
  assumes "0 \<le> k" "k \<le> 5"
  shows "lookup (Num (of_int k)) = Inr (spec_table k)"
proof -
  from assms have "k = 0 \<or> k = 1 \<or> k = 2 \<or> k = 3 \<or> k = 4 \<or> k = 5" by arith
  then have "map_of star_type_map k = Some (spec_table k)"
    by (auto simp: map_of_star_type_map spec_table_def)
  then show ?thesis by (auto simp: lookup_Inr)
qed

lemma load_type6: "load_data (Table type6) u = (Some type6, u)"
  by (simp add: load_data_def read_csv_def required_columns_def columns_def type6_def)

lemma lookup6: "lookup (Num 6) = Inl KeyError"
  by (simp add: lookup_def star_type_map_def)

subsection \<open>unique\<close>

lemma unique_from_map:
  "inj_on f (set xs \<union> set seen) \<Longrightarrow>
     unique_from (map f seen) (map f xs) = map f (unique_from seen xs)"
proof (induction xs arbitrary: seen)
  case Nil
  then show ?case by simp
next
  case (Cons x xs)
  have mem: "f x \<in> f ` set seen \<longleftrightarrow> x \<in> set seen"
    using Cons.prems by (auto simp: inj_on_def)
  have inj1: "inj_on f (set xs \<union> set seen)"
    using Cons.prems by (auto simp: inj_on_def)
  have inj2: "inj_on f (set xs \<union> set (x # seen))"
    using Cons.prems by (auto simp: inj_on_def)
  show ?case
    using Cons.IH[OF inj1] Cons.IH[OF inj2] mem by simp
qed

lemma unique_map: "inj_on f (set xs) \<Longrightarrow> unique (map f xs) = map f (unique xs)"
  using unique_from_map[of f xs "[]"] by (simp add: unique_def)

lemma set_unique_from: "set (unique_from seen xs) = set xs - set seen"
  by (induction xs arbitrary: seen) auto

lemma distinct_unique_from: "distinct (unique_from seen xs)"
  by (induction xs arbitrary: seen) (auto simp: set_unique_from)

lemma set_unique: "set (unique xs) = set xs"
  by (simp add: unique_def set_unique_from)

lemma distinct_unique: "distinct (unique xs)"
  by (simp add: unique_def distinct_unique_from)

lemma length_unique: "length (unique xs) = card (set xs)"
  using distinct_card[OF distinct_unique, of xs] by (simp add: set_unique)

subsection \<open>select\<close>

lemma select_Nil [simp]: "select [] s = []" "select m [] = []"
  by (simp_all add: select_def)

lemma select_Cons [simp]:
  "select (b # m) (x # s) = (if b then x # select m s else select m s)"
  by (simp add: select_def)

lemma select_map_both: "select (map P xs) (map g xs) = map g (filter P xs)"
  by (induction xs) simp_all

lemma length_select:
  "length m = length s \<Longrightarrow> length (select m s) = length (filter id m)"
  by (induction m s rule: list_induct2) simp_all

lemma filter_id_map: "filter id (map P xs) = map P (filter P xs)"
  by (induction xs) simp_all

lemma length_select_map:
  "length s = length xs \<Longrightarrow> length (select (map P xs) s) = length (filter P xs)"
  by (simp add: length_select filter_id_map)

subsection \<open>Tables\<close>

lemma map_of_df_filter:
  "map_of (df_filter m df) c = map_option (select m) (map_of df c)"
  by (induction df) (simp_all add: df_filter_def)

lemma getitem_df_filter:
  "getitem (df_filter m df) c = map_sum id (select m) (getitem df c)"
  by (simp add: getitem_def map_of_df_filter split: option.splits)

lemma empty_df_filter:
  "df \<noteq> [] \<Longrightarrow> empty (df_filter m df) \<longleftrightarrow> select m (snd (hd df)) = []"
  by (cases df) (simp_all add: empty_def df_filter_def)

lemma getitem_in_set: "getitem df c = Inr s \<Longrightarrow> (c, s) \<in> set df"
  by (auto simp: getitem_def split: option.splits dest: map_of_SomeD)

lemma getitem_nonempty: "getitem df c = Inr s \<Longrightarrow> df \<noteq> []"
  by (auto simp: getitem_def)

lemma wf_frame_length:
  "wf_frame df \<Longrightarrow> getitem df c = Inr s \<Longrightarrow> length s = nrows df"
  using getitem_in_set[of df c s] by (auto simp: wf_frame_def nrows_def list_all_iff)

lemma setitem_nonempty [simp]: "setitem df c s \<noteq> []"
  by (cases df) (simp_all add: setitem_def)

lemma nrows_setitem:
  "df \<noteq> [] \<Longrightarrow> length s = nrows df \<Longrightarrow> nrows (setitem df c s) = nrows df"
  by (cases df) (auto simp: setitem_def nrows_def)

lemma nrows_classified:
  "df \<noteq> [] \<Longrightarrow> length ks = nrows df \<Longrightarrow> nrows (classified df ks) = nrows df"
  by (simp add: classified_def nrows_setitem)

lemma getitem_classified:
  "getitem (classified df ks) c =
     (if c = ''Color'' then Inr (map spec_color ks)
      else if c = ''Marker size'' then Inr (map spec_size ks)
      else if c = ''Star type label'' then Inr (map spec_label ks)
      else getitem df c)"
  by (simp add: classified_def getitem_setitem)

subsection \<open>The classifier\<close>

lemma lookup_code_cell:
  "0 \<le> k \<Longrightarrow> k \<le> 5 \<Longrightarrow> lookup (code_cell k) = Inr (spec_table k)"
  by (simp add: code_cell_def lookup_code)

lemma series_map_codes:
  assumes "\<forall>k \<in> set ks. 0 \<le> k \<and> k \<le> 5"
  shows "series_map (\<lambda>x. bind (lookup x) (\<lambda>v. Inr (h v))) (map code_cell ks)
           = Inr (map (\<lambda>k. h (spec_table k)) ks)"
  using assms by (induction ks) (simp_all add: lookup_code_cell)

lemma map_star_types_codes:
  assumes "getitem df ''Star type'' = Inr (map code_cell ks)"
    and "\<forall>k \<in> set ks. 0 \<le> k \<and> k \<le> 5"
  shows "map_star_types df = Inr (classified df ks)"
  using assms(1)
  by (simp add: map_star_types_def getitem_setitem Let_def series_map_codes[OF assms(2)]
      classified_def spec_label_def[abs_def] spec_size_def[abs_def] spec_color_def[abs_def])

lemma series_map_lookup_Inr:
  "series_map (\<lambda>x. bind (lookup x) (\<lambda>v. Inr (h v))) xs = Inr ys \<Longrightarrow>
     \<exists>ks. xs = map code_cell ks \<and> (\<forall>k \<in> set ks. 0 \<le> k \<and> k \<le> 5)"
proof (induction xs arbitrary: ys)
  case Nil
  then show ?case by simp
next
  case (Cons x xs)
  from Cons.prems obtain v zs where v: "lookup x = Inr v"
    and zs: "series_map (\<lambda>x. bind (lookup x) (\<lambda>v. Inr (h v))) xs = Inr zs"
    by (cases "lookup x") (auto split: sum.splits)
  from v obtain k where k: "x = code_cell k" "map_of star_type_map k = Some v"
    by (auto simp: lookup_Inr code_cell_def)
  from k(2) have range: "0 \<le> k \<and> k \<le> 5"
    by (auto simp: map_of_star_type_map)
  from Cons.IH[OF zs] obtain ks where "xs = map code_cell ks" "\<forall>k \<in> set ks. 0 \<le> k \<and> k \<le> 5"
    by blast
  with k(1) range have "x # xs = map code_cell (k # ks) \<and> (\<forall>j \<in> set (k # ks). 0 \<le> j \<and> j \<le> 5)"
    by simp
  then show ?case by (rule exI[of _ "k # ks"])
qed

lemma map_star_types_Inr:
  assumes "map_star_types df = Inr df'"
  shows "\<exists>ks. getitem df ''Star type'' = Inr (map code_cell ks) \<and>
           (\<forall>k \<in> set ks. 0 \<le> k \<and> k \<le> 5) \<and> df' = classified df ks"
proof -
  from assms obtain col labels where col: "getitem df ''Star type'' = Inr col"
    and "series_map (\<lambda>x. bind (lookup x) (\<lambda>v. Inr (Str (fst v)))) col = Inr labels"
    unfolding map_star_types_def bind_eq_Inr by blast
  from series_map_lookup_Inr[OF this(2)] obtain ks where
    ks: "col = map code_cell ks" "\<forall>k \<in> set ks. 0 \<le> k \<and> k \<le> 5"
    by blast
  from map_star_types_codes[of df ks] col ks assms have "df' = classified df ks"
    by simp
  with col ks show ?thesis by blast
qed

lemma spec_label_inj:
  assumes "0 \<le> j" "j \<le> 5" "0 \<le> k" "k \<le> 5"
  shows "spec_label j = spec_label k \<longleftrightarrow> j = k"
proof -
  from assms have "j = 0 \<or> j = 1 \<or> j = 2 \<or> j = 3 \<or> j = 4 \<or> j = 5"
    and "k = 0 \<or> k = 1 \<or> k = 2 \<or> k = 3 \<or> k = 4 \<or> k = 5" by arith+
  then show ?thesis
    by (auto simp: spec_label_def spec_table_def)
qed

lemma spec_color_inj:
  assumes "0 \<le> j" "j \<le> 5" "0 \<le> k" "k \<le> 5"
  shows "spec_color j = spec_color k \<longleftrightarrow> j = k"
proof -
  from assms have "j = 0 \<or> j = 1 \<or> j = 2 \<or> j = 3 \<or> j = 4 \<or> j = 5"
    and "k = 0 \<or> k = 1 \<or> k = 2 \<or> k = 3 \<or> k = 4 \<or> k = 5" by arith+
  then show ?thesis
    by (auto simp: spec_color_def spec_table_def)
qed

lemma series_eq_labels:
  assumes "\<forall>j \<in> set ks. 0 \<le> j \<and> j \<le> 5" and "0 \<le> k" "k \<le> 5"
  shows "series_eq (map spec_label ks) (spec_label k) = map (\<lambda>j. j = k) ks"
proof -
  have "cell_eq (spec_label j) (spec_label k) \<longleftrightarrow> j = k" if "j \<in> set ks" for j
    using that assms spec_label_inj[of j k] by (auto simp: cell_eq_def spec_label_def)
  then show ?thesis
    by (simp add: series_eq_def)
qed

lemma zip_unique_codes:
  assumes "\<forall>j \<in> set ks. 0 \<le> j \<and> j \<le> 5"
  shows "zip (unique (map spec_label ks)) (unique (map spec_color ks))
           = map (\<lambda>k. (spec_label k, spec_color k)) (unique ks)"
proof -
  have "inj_on spec_label (set ks)" "inj_on spec_color (set ks)"
    using assms by (auto simp: inj_on_def spec_label_inj spec_color_inj)
  then show ?thesis
    by (simp add: unique_map zip_map_map zip_same_conv_map)
qed

lemma filter_eq_Cons:
  assumes "k \<in> set ks"
  shows "\<exists>zs. filter (\<lambda>j. j = k) ks = k # zs"
proof (cases "filter (\<lambda>j. j = k) ks")
  case Nil
  with assms show ?thesis by (auto simp: filter_empty_conv)
next
  case (Cons a zs)
  then have "a \<in> set (filter (\<lambda>j. j = k) ks)" by simp
  then have "a = k" by simp
  with Cons show ?thesis by simp
qed

lemma draw_group_classified:
  assumes wf: "wf_frame df"
    and st: "getitem df ''Star type'' = Inr (map code_cell ks)"
    and range: "\<forall>j \<in> set ks. 0 \<le> j \<and> j \<le> 5"
    and ts: "getitem df ''Temperature (K)'' = Inr ts"
    and ms: "getitem df ''Absolute magnitude(Mv)'' = Inr ms"
    and k: "k \<in> set ks"
  shows "draw_group (classified df ks) (spec_label k, spec_color k) ax
           = Inr (ax\<lparr>scatters := scatters ax @ [group_series ks ts ms k]\<rparr>)"
proof -
  let ?df = "classified df ks"
  let ?m = "map (\<lambda>j. j = k) ks"
  from k range have kr: "0 \<le> k" "k \<le> 5" by auto
  have ne: "df \<noteq> []" using st by (rule getitem_nonempty)
  have n: "nrows df = length ks" using wf_frame_length[OF wf st] by simp
  then have n': "length (snd (hd ?df)) = length ks"
    using nrows_classified[OF ne, of ks] by (simp add: nrows_def)
  have ne': "?df \<noteq> []" by (simp add: classified_def)
  have mask: "series_eq (map spec_label ks) (spec_label k) = ?m"
    using series_eq_labels[OF range kr] .
  from filter_eq_Cons[OF k] obtain zs where zs: "filter (\<lambda>j. j = k) ks = k # zs" ..
  have "length (select ?m (snd (hd ?df))) = length (filter (\<lambda>j. j = k) ks)"
    using n' by (rule length_select_map)
  with zs have nonempty: "\<not> empty (df_filter ?m ?df)"
    by (auto simp: empty_df_filter[OF ne'])
  have size: "iloc0 (select ?m (map spec_size ks)) = Inr (spec_size k)"
    by (simp add: select_map_both zs iloc0_def)
  show ?thesis
    unfolding draw_group_def Let_def fst_conv snd_conv
    using nonempty ts ms
    by (simp add: getitem_classified mask getitem_df_filter size scatter_def group_series_def)
qed

lemma for_each_scatter:
  assumes "\<And>x ax. x \<in> set xs \<Longrightarrow> f (p x) ax = Inr (ax\<lparr>scatters := scatters ax @ [h x]\<rparr>)"
  shows "for_each f (map p xs) ax = Inr (ax\<lparr>scatters := scatters ax @ map h xs\<rparr>)"
  using assms by (induction xs arbitrary: ax) simp_all

lemma draw_series_classified:
  assumes wf: "wf_frame df"
    and st: "getitem df ''Star type'' = Inr (map code_cell ks)"
    and range: "\<forall>j \<in> set ks. 0 \<le> j \<and> j \<le> 5"
    and ts: "getitem df ''Temperature (K)'' = Inr ts"
    and ms: "getitem df ''Absolute magnitude(Mv)'' = Inr ms"
  shows "draw_series (classified df ks) ax
           = Inr (ax\<lparr>scatters := scatters ax @ map (group_series ks ts ms) (unique ks)\<rparr>)"
proof -
  have "for_each (draw_group (classified df ks))
          (map (\<lambda>k. (spec_label k, spec_color k)) (unique ks)) ax
        = Inr (ax\<lparr>scatters := scatters ax @ map (group_series ks ts ms) (unique ks)\<rparr>)"
    by (rule for_each_scatter) (simp add: draw_group_classified[OF wf st range ts ms] set_unique)
  then show ?thesis
    by (simp add: draw_series_def getitem_classified zip_unique_codes[OF range])
qed




lemma set_lim_scatters:
  "set_xlim l r ax = Inr ax' \<Longrightarrow> scatters ax' = scatters ax"
  "set_ylim l r ax = Inr ax' \<Longrightarrow> scatters ax' = scatters ax"
  by (auto simp: set_xlim_def set_ylim_def split: option.splits)

lemma plot_hr_diagram_scatters:
  assumes "plot_hr_diagram df = Inr fig"
  shows "\<exists>ax. draw_series df new_axes = Inr ax \<and> scatters (primary fig) = scatters ax"
proof -
  from assms obtain ax tmn tmx mmn mmx axa axb ax2 ax3
    where ax: "draw_series df new_axes = Inr ax"
      and xl: "set_xlim (scaled tmx (11 / 10)) (scaled tmn (9 / 10))
                 (invert_yaxis (invert_xaxis (ax\<lparr>xscale := Log\<rparr>))
                   \<lparr>xlabel := ''Temperature (K)'', ylabel := ''Absolute Magnitude (Mv)'',
                    title := ''Hertzsprung-Russell Diagram'',
                    legend := Some ''Stellar Classification'', grid := True\<rparr>) = Inr axa"
      and yl: "set_ylim (shifted mmx 1) (shifted mmn (- 1)) axa = Inr axb"
      and fig: "fig = \<lparr>primary = axb\<lparr>xticks := Some [40000, 30000, 20000, 10000, 7500, 6000, 5000, 3000],
                   xminor := Some (LogLocator 10 (map real [2..<10]))\<rparr>, spectral = ax2, luminosity = ax3\<rparr>"
    unfolding plot_hr_diagram_def Let_def bind_eq_Inr by blast
  from set_lim_scatters(1)[OF xl] set_lim_scatters(2)[OF yl] fig
  have "scatters (primary fig) = scatters ax"
    by (simp add: invert_xaxis_def invert_yaxis_def)
  with ax show ?thesis by blast
qed

lemma map_of_spec_table:
  assumes "0 \<le> k" "k \<le> 5"
  shows "map_of star_type_map k = Some (spec_table k)"
proof -
  from assms have "k = 0 \<or> k = 1 \<or> k = 2 \<or> k = 3 \<or> k = 4 \<or> k = 5" by arith
  then show ?thesis
    by (auto simp: map_of_star_type_map spec_table_def)
qed

lemma count_list_labels:
  assumes "\<forall>j \<in> set ks. 0 \<le> j \<and> j \<le> 5" and "0 \<le> k" "k \<le> 5"
  shows "count_list (map spec_label ks) (spec_label k) = length (filter (\<lambda>j. j = k) ks)"
  using assms by (induction ks) (simp_all add: spec_label_inj)

lemma iloc0_sizes:
  assumes "k \<in> set ks"
  shows "iloc0 (select (map (\<lambda>j. j = k) ks) (map spec_size ks)) = Inr (spec_size k)"
proof -
  from filter_eq_Cons[OF assms] obtain zs where "filter (\<lambda>j. j = k) ks = k # zs" ..
  then show ?thesis
    by (simp add: select_map_both iloc0_def)
qed

lemma group_series_facts:
  assumes range: "\<forall>j \<in> set ks. 0 \<le> j \<and> j \<le> 5"
    and k: "k \<in> set ks" and len: "length ts = length ks"
    and sc: "sc = group_series ks ts ms k" and labels: "labels = map spec_label ks"
    and sizes: "sizes = map spec_size ks"
  shows "sc_x sc = select (series_eq labels (sc_label sc)) ts \<and>
         sc_y sc = select (series_eq labels (sc_label sc)) ms \<and>
         length (sc_x sc) = count_list labels (sc_label sc) \<and>
         iloc0 (select (series_eq labels (sc_label sc)) sizes) = Inr (sc_s sc) \<and>
         (\<exists>j l n c. map_of star_type_map j = Some (l, n, c) \<and>
            sc_label sc = Str l \<and> sc_s sc = Num (real n) \<and> sc_c sc = Str c)"
proof -
  from k range have kr: "0 \<le> k" "k \<le> 5" by auto
  have mask: "series_eq labels (sc_label sc) = map (\<lambda>j. j = k) ks"
    using series_eq_labels[OF range kr] by (simp add: sc labels group_series_def)
  have cnt: "count_list labels (sc_label sc) = length (filter (\<lambda>j. j = k) ks)"
    using count_list_labels[OF range kr] by (simp add: sc labels group_series_def)
  have tab: "map_of star_type_map k =
      Some (fst (spec_table k), fst (snd (spec_table k)), snd (snd (spec_table k)))"
    using map_of_spec_table[OF kr] by simp
  have ex: "\<exists>j l n c. map_of star_type_map j = Some (l, n, c) \<and>
            sc_label sc = Str l \<and> sc_s sc = Num (real n) \<and> sc_c sc = Str c"
    using tab by (auto simp: sc group_series_def spec_label_def spec_size_def spec_color_def)
  have x: "sc_x sc = select (map (\<lambda>j. j = k) ks) ts" "sc_y sc = select (map (\<lambda>j. j = k) ks) ms"
    by (simp_all add: sc group_series_def)
  have s: "iloc0 (select (map (\<lambda>j. j = k) ks) sizes) = Inr (sc_s sc)"
    using iloc0_sizes[OF k] by (simp add: sizes sc group_series_def)
  have l: "length (sc_x sc) = length (filter (\<lambda>j. j = k) ks)"
    using length_select_map[OF len] by (simp add: x)
  show ?thesis
    using ex l by (simp add: mask cnt x s)
qed

lemma three_stars_facts:
  "wf_frame three_stars"
  "map_star_types three_stars = Inr (classified three_stars [3, 0, 3])"
  "getitem three_stars ''Temperature (K)'' = Inr [Num 5778, Num 3042, Num 9940]"
  "getitem three_stars ''Absolute magnitude(Mv)'' = Inr [Num (483 / 100), Num (156 / 10), Num (142 / 100)]"
proof -
  show "wf_frame three_stars"
    by (simp add: wf_frame_def three_stars_def)
  have "getitem three_stars ''Star type'' = Inr (map code_cell [3, 0, 3])"
    by (simp add: three_stars_def getitem_def code_cell_def)
  then show "map_star_types three_stars = Inr (classified three_stars [3, 0, 3])"
    by (rule map_star_types_codes) simp
  show "getitem three_stars ''Temperature (K)'' = Inr [Num 5778, Num 3042, Num 9940]"
    by (simp add: three_stars_def getitem_def)
  show "getitem three_stars ''Absolute magnitude(Mv)'' = Inr [Num (483 / 100), Num (156 / 10), Num (142 / 100)]"
    by (simp add: three_stars_def getitem_def)
qed

lemma header_only_facts:
  "load_data (Table header_only) u = (Some header_only, u)"
  "wf_frame header_only"
  "getitem header_only ''Star type'' = Inr (map code_cell [])"
  "getitem header_only ''Temperature (K)'' = Inr []"
  "getitem header_only ''Absolute magnitude(Mv)'' = Inr []"
  by (simp_all add: header_only_def required_columns_def load_data_def read_csv_def columns_def
      wf_frame_def getitem_def)

subsection \<open>Tables that differ in one column\<close>

lemma same_except_Nil [simp]: "same_except c [] []"
  by (simp add: same_except_def)

lemma same_except_Cons:
  "same_except c (p # d1) (q # d2) \<longleftrightarrow>
     fst p = fst q \<and> length (snd p) = length (snd q) \<and> (fst p = c \<or> snd p = snd q) \<and>
     same_except c d1 d2"
  by (simp add: same_except_def)

lemma same_except_induct [consumes 1, case_names Nil Cons]:
  assumes "same_except c d1 d2"
    and "P [] []"
    and "\<And>p q d1 d2. fst p = fst q \<Longrightarrow> length (snd p) = length (snd q) \<Longrightarrow>
           fst p = c \<or> snd p = snd q \<Longrightarrow> same_except c d1 d2 \<Longrightarrow> P d1 d2 \<Longrightarrow>
           P (p # d1) (q # d2)"
  shows "P d1 d2"
  using assms(1) unfolding same_except_def
proof (induction rule: list_all2_induct)
  case Nil
  show ?case by (rule assms(2))
next
  case (Cons p d1 q d2)
  then show ?case by (intro assms(3)) (auto simp: same_except_def)
qed

lemma same_except_columns: "same_except c d1 d2 \<Longrightarrow> columns d1 = columns d2"
  by (induction rule: same_except_induct) (simp_all add: columns_def)

lemma same_except_getitem:
  "same_except c d1 d2 \<Longrightarrow> c' \<noteq> c \<Longrightarrow> getitem d1 c' = getitem d2 c'"
proof (induction rule: same_except_induct)
  case Nil
  show ?case by simp
next
  case (Cons p q d1 d2)
  then show ?case
    by (cases p; cases q) (auto simp: getitem_def)
qed

lemma same_except_setitem:
  "same_except c d1 d2 \<Longrightarrow> same_except c (setitem d1 c' s) (setitem d2 c' s)"
proof (induction rule: same_except_induct)
  case Nil
  show ?case by (simp add: setitem_def same_except_Cons)
next
  case (Cons p q d1 d2)
  then show ?case
    by (cases p; cases q) (auto simp: setitem_def same_except_Cons)
qed

lemma same_except_df_filter:
  "same_except c d1 d2 \<Longrightarrow> same_except c (df_filter m d1) (df_filter m d2)"
proof (induction rule: same_except_induct)
  case Nil
  show ?case by (simp add: df_filter_def)
next
  case (Cons p q d1 d2)
  have "length (select m (snd p)) = length (select m (snd q))"
    using Cons(2)
  proof (induction "snd p" "snd q" arbitrary: p q m rule: list_induct2)
    case Nil
    then show ?case by simp
  next
    case (Cons x xs y ys)
    from Cons(3,4) have p: "snd p = x # xs" and q: "snd q = y # ys" by simp_all
    have "length (select m' xs) = length (select m' ys)" for m'
      using Cons(2)[of "(fst p, xs)" "(fst q, ys)" m'] by simp
    then show ?case by (cases m) (simp_all add: p q)
  qed
  with Cons show ?case
    by (auto simp: df_filter_def same_except_Cons)
qed

lemma same_except_empty: "same_except c d1 d2 \<Longrightarrow> empty d1 = empty d2"
  by (cases d1; cases d2) (auto simp: empty_def same_except_def)

lemma draw_group_same:
  assumes "same_except ''Luminosity(L/Lo)'' d1 d2"
  shows "draw_group d1 p ax = draw_group d2 p ax"
proof -
  have l: "getitem d1 ''Star type label'' = getitem d2 ''Star type label''"
    by (rule same_except_getitem[OF assms]) simp
  have f: "same_except ''Luminosity(L/Lo)'' (df_filter m d1) (df_filter m d2)" for m
    by (rule same_except_df_filter[OF assms])
  have e: "empty (df_filter m d1) = empty (df_filter m d2)" for m
    by (rule same_except_empty[OF f])
  have g: "getitem (df_filter m d1) ''Temperature (K)'' = getitem (df_filter m d2) ''Temperature (K)''"
    "getitem (df_filter m d1) ''Absolute magnitude(Mv)'' = getitem (df_filter m d2) ''Absolute magnitude(Mv)''"
    "getitem (df_filter m d1) ''Marker size'' = getitem (df_filter m d2) ''Marker size''" for m
    by (rule same_except_getitem[OF f], simp)+
  show ?thesis
    unfolding draw_group_def Let_def l e g ..
qed

lemma draw_series_same:
  assumes "same_except ''Luminosity(L/Lo)'' d1 d2"
  shows "draw_series d1 ax = draw_series d2 ax"
proof -
  have l: "getitem d1 ''Star type label'' = getitem d2 ''Star type label''"
    "getitem d1 ''Color'' = getitem d2 ''Color''"
    by (rule same_except_getitem[OF assms], simp)+
  have "draw_group d1 = draw_group d2"
    by (intro ext) (rule draw_group_same[OF assms])
  then show ?thesis
    unfolding draw_series_def l by simp
qed

lemma plot_hr_diagram_same:
  assumes "same_except ''Luminosity(L/Lo)'' d1 d2"
  shows "plot_hr_diagram d1 = plot_hr_diagram d2"
proof -
  have g: "getitem d1 ''Temperature (K)'' = getitem d2 ''Temperature (K)''"
    "getitem d1 ''Absolute magnitude(Mv)'' = getitem d2 ''Absolute magnitude(Mv)''"
    by (rule same_except_getitem[OF assms], simp)+
  show ?thesis
    unfolding plot_hr_diagram_def draw_series_same[OF assms] g ..
qed

lemma map_star_types_unfold:
  assumes "getitem df ''Star type'' = Inr col"
  shows "map_star_types df =
     bind (series_map (\<lambda>x. bind (lookup x) (\<lambda>v. Inr (Str (fst v)))) col) (\<lambda>labels.
     bind (series_map (\<lambda>x. bind (lookup x) (\<lambda>v. Inr (Num (real (fst (snd v)))))) col) (\<lambda>sizes.
     bind (series_map (\<lambda>x. bind (lookup x) (\<lambda>v. Inr (Str (snd (snd v))))) col) (\<lambda>colors.
     Inr (setitem (setitem (setitem df ''Star type label'' labels) ''Marker size'' sizes)
            ''Color'' colors))))"
  using assms by (simp add: map_star_types_def getitem_setitem Let_def)

lemma map_star_types_same:
  assumes "same_except ''Luminosity(L/Lo)'' d1 d2"
  shows "(\<exists>e. map_star_types d1 = Inl e \<and> map_star_types d2 = Inl e) \<or>
         (\<exists>a b. map_star_types d1 = Inr a \<and> map_star_types d2 = Inr b \<and>
                 same_except ''Luminosity(L/Lo)'' a b)"
proof (cases "getitem d1 ''Star type''")
  case (Inl e)
  moreover have "getitem d2 ''Star type'' = getitem d1 ''Star type''"
    by (rule same_except_getitem[OF assms, symmetric]) simp
  ultimately show ?thesis by (simp add: map_star_types_def)
next
  case (Inr col)
  moreover have "getitem d2 ''Star type'' = getitem d1 ''Star type''"
    by (rule same_except_getitem[OF assms, symmetric]) simp
  ultimately have u: "getitem d1 ''Star type'' = Inr col" "getitem d2 ''Star type'' = Inr col"
    by simp_all
  have s: "same_except ''Luminosity(L/Lo)''
             (setitem (setitem (setitem d1 ''Star type label'' x) ''Marker size'' y) ''Color'' z)
             (setitem (setitem (setitem d2 ''Star type label'' x) ''Marker size'' y) ''Color'' z)"
    for x y z
    by (intro same_except_setitem assms)
  show ?thesis
    unfolding map_star_types_unfold[OF u(1)] map_star_types_unfold[OF u(2)]
    using s
    by (cases "series_map (\<lambda>x. bind (lookup x) (\<lambda>v. Inr (Str (fst v)))) col";
        cases "series_map (\<lambda>x. bind (lookup x) (\<lambda>v. Inr (Num (real (fst (snd v)))))) col";
        cases "series_map (\<lambda>x. bind (lookup x) (\<lambda>v. Inr (Str (snd (snd v))))) col")
      simp_all
qed








section \<open>The claims\<close>

text \<open>
  Claim C1. When the header of the uploaded table lacks one of the five required
  columns, \<open>load_data\<close> shows the error message and returns \<open>None\<close>, and the
  script ends there: its whole effect on the page is that message, no exception leaves
  it, and the figure of the page is not touched, so neither the classifier nor the
  renderer has run.
\<close>

theorem load_data_missing_column:
  assumes "c \<in> set required_columns" and "c \<notin> set (columns df)"
  shows "load_data (Table df) u =
           (None, st_error ''Dataset is missing one or more required columns.'' u) \<and>
         main_app (Some (Table df)) u =
           Inr (st_error ''Dataset is missing one or more required columns.'' u) \<and>
         shown (st_error ''Dataset is missing one or more required columns.'' u) = shown u"
proof -
  from assms have "\<not> list_all (\<lambda>col. col \<in> set (columns df)) required_columns"
    by (auto simp: list_all_iff)
  then have "load_data (Table df) u =
           (None, st_error ''Dataset is missing one or more required columns.'' u)"
    by (simp add: load_data_def read_csv_def)
  then show ?thesis
    by (simp add: main_app_def st_error_def)
qed

theorem load_data_missing_column_witness:
  "''Temperature (K)'' \<in> set required_columns \<and>
   ''Temperature (K)'' \<notin> set (columns (tl sun)) \<and>
   main_app (Some (Table (tl sun))) empty_page =
     Inr \<lparr>errors = [''Dataset is missing one or more required columns.''], infos = [],
          shown = None\<rparr>"
proof -
  have h1: "''Temperature (K)'' \<in> set required_columns"
    by (simp add: required_columns_def)
  have h2: "''Temperature (K)'' \<notin> set (columns (tl sun))"
    by (simp add: columns_def sun_def)
  from load_data_missing_column[OF h1 h2, of empty_page] h1 h2 show ?thesis
    by (simp add: st_error_def empty_page_def)
qed

text \<open>
  Claim C2. When every star type of the table is one of the codes 0 to 5,
  \<open>map_star_types\<close> succeeds, and the three derived columns have one cell for each
  row, holding the label, the marker size and the colour that the table of the
  specification gives for the code of that row.
\<close>

theorem map_star_types_table:
  assumes "getitem df ''Star type'' = Inr (map (\<lambda>k. Num (of_int k)) ks)"
    and "\<forall>k \<in> set ks. 0 \<le> k \<and> k \<le> 5"
  shows "\<exists>df' labels sizes colors.
           map_star_types df = Inr df' \<and>
           getitem df' ''Star type label'' = Inr labels \<and>
           getitem df' ''Marker size'' = Inr sizes \<and>
           getitem df' ''Color'' = Inr colors \<and>
           length labels = length ks \<and> length sizes = length ks \<and> length colors = length ks \<and>
           labels = map (\<lambda>k. Str (fst (spec_table k))) ks \<and>
           sizes = map (\<lambda>k. Num (real (fst (snd (spec_table k))))) ks \<and>
           colors = map (\<lambda>k. Str (snd (snd (spec_table k)))) ks"
proof -
  from assms(1) have "getitem df ''Star type'' = Inr (map code_cell ks)"
    by (simp add: code_cell_def[abs_def])
  then have "map_star_types df = Inr (classified df ks)"
    using assms(2) by (rule map_star_types_codes)
  then show ?thesis
    by (simp add: getitem_classified spec_label_def[abs_def] spec_size_def[abs_def]
        spec_color_def[abs_def])
qed

theorem map_star_types_table_witness:
  "getitem sun ''Star type'' = Inr (map (\<lambda>k. Num (of_int k)) [3]) \<and>
   (\<exists>df'. map_star_types sun = Inr df' \<and>
      getitem df' ''Star type label'' = Inr [Str ''Main Sequence''] \<and>
      getitem df' ''Marker size'' = Inr [Num 50] \<and>
      getitem df' ''Color'' = Inr [Str ''blue''])"
proof -
  have h1: "getitem sun ''Star type'' = Inr (map (\<lambda>k. Num (of_int k)) [3])"
    by (simp add: sun_def getitem_def)
  have h2: "\<forall>k \<in> set [3::int]. 0 \<le> k \<and> k \<le> 5" by simp
  from map_star_types_table[OF h1 h2] h1 show ?thesis
    by (simp add: spec_table_def)
qed

text \<open>
  Claim C3. On a table with all five columns and one row whose star type is 6, the
  loader accepts the table, \<open>map_star_types\<close> raises KeyError, and nothing catches
  it: the script ends with that exception and reports nothing through
  \<^verbatim>\<open>st.error\<close>.
\<close>

theorem star_type_6_uncaught:
  "load_data (Table type6) empty_page = (Some type6, empty_page) \<and>
   map_star_types type6 = Inl KeyError \<and>
   main_app (Some (Table type6)) empty_page = Inl KeyError"
proof -
  have "getitem type6 ''Star type'' = Inr [Num 6]"
    by (simp add: type6_def getitem_def)
  then have "map_star_types type6 = Inl KeyError"
    by (simp add: map_star_types_def lookup6)
  then show ?thesis
    by (simp add: main_app_def load_type6)
qed

text \<open>
  Claim C4. For a table that the classifier has returned, the loop of the renderer
  draws one scatter series for each distinct label of the table, in the order of first
  appearance: their number is the number of distinct labels. The series of a label holds
  the temperatures and magnitudes of exactly the rows with that label, as many points as
  there are such rows; its marker size is that of the first row of the group, and label,
  size and colour are one entry of \<open>star_type_map\<close>. The figure that
  \<open>plot_hr_diagram\<close> returns carries these series.
\<close>

theorem scatter_series_by_label:
  assumes wf: "wf_frame df0"
    and cl: "map_star_types df0 = Inr df"
    and ts: "getitem df0 ''Temperature (K)'' = Inr ts"
    and ms: "getitem df0 ''Absolute magnitude(Mv)'' = Inr ms"
  shows "\<exists>ax labels sizes.
           draw_series df new_axes = Inr ax \<and>
           getitem df ''Star type label'' = Inr labels \<and>
           getitem df ''Marker size'' = Inr sizes \<and>
           getitem df ''Temperature (K)'' = Inr ts \<and>
           getitem df ''Absolute magnitude(Mv)'' = Inr ms \<and>
           length (scatters ax) = card (set labels) \<and>
           map sc_label (scatters ax) = unique labels \<and>
           (\<forall>sc \<in> set (scatters ax).
              sc_x sc = select (series_eq labels (sc_label sc)) ts \<and>
              sc_y sc = select (series_eq labels (sc_label sc)) ms \<and>
              length (sc_x sc) = count_list labels (sc_label sc) \<and>
              iloc0 (select (series_eq labels (sc_label sc)) sizes) = Inr (sc_s sc) \<and>
              (\<exists>j l n c. map_of star_type_map j = Some (l, n, c) \<and>
                 sc_label sc = Str l \<and> sc_s sc = Num (real n) \<and> sc_c sc = Str c)) \<and>
           (\<forall>fig. plot_hr_diagram df = Inr fig \<longrightarrow> scatters (primary fig) = scatters ax)"
proof -
  from map_star_types_Inr[OF cl] obtain ks where
    st: "getitem df0 ''Star type'' = Inr (map code_cell ks)"
    and range: "\<forall>k \<in> set ks. 0 \<le> k \<and> k \<le> 5" and df: "df = classified df0 ks"
    by blast
  let ?ax = "new_axes\<lparr>scatters := map (group_series ks ts ms) (unique ks)\<rparr>"
  let ?labels = "map spec_label ks"
  let ?sizes = "map spec_size ks"
  have draw: "draw_series df new_axes = Inr ?ax"
    using draw_series_classified[OF wf st range ts ms, of new_axes]
    by (simp add: df new_axes_def)
  have len: "length ts = length ks"
    using wf_frame_length[OF wf ts] wf_frame_length[OF wf st] by simp
  have inj: "inj_on spec_label (set ks)"
    using range by (auto simp: inj_on_def spec_label_inj)
  have card: "length (scatters ?ax) = card (set ?labels)"
    by (simp add: length_unique card_image[OF inj])
  have lab: "map sc_label (scatters ?ax) = unique ?labels"
    by (simp add: unique_map[OF inj] group_series_def comp_def)
  have each: "\<forall>sc \<in> set (scatters ?ax).
              sc_x sc = select (series_eq ?labels (sc_label sc)) ts \<and>
              sc_y sc = select (series_eq ?labels (sc_label sc)) ms \<and>
              length (sc_x sc) = count_list ?labels (sc_label sc) \<and>
              iloc0 (select (series_eq ?labels (sc_label sc)) ?sizes) = Inr (sc_s sc) \<and>
              (\<exists>j l n c. map_of star_type_map j = Some (l, n, c) \<and>
                 sc_label sc = Str l \<and> sc_s sc = Num (real n) \<and> sc_c sc = Str c)"
  proof
    fix sc assume "sc \<in> set (scatters ?ax)"
    then obtain k where k: "k \<in> set ks" and sc: "sc = group_series ks ts ms k"
      by (auto simp: set_unique)
    show "sc_x sc = select (series_eq ?labels (sc_label sc)) ts \<and>
              sc_y sc = select (series_eq ?labels (sc_label sc)) ms \<and>
              length (sc_x sc) = count_list ?labels (sc_label sc) \<and>
              iloc0 (select (series_eq ?labels (sc_label sc)) ?sizes) = Inr (sc_s sc) \<and>
              (\<exists>j l n c. map_of star_type_map j = Some (l, n, c) \<and>
                 sc_label sc = Str l \<and> sc_s sc = Num (real n) \<and> sc_c sc = Str c)"
      by (rule group_series_facts[OF range k len sc refl refl])
  qed
  have fig: "\<forall>fig. plot_hr_diagram df = Inr fig \<longrightarrow> scatters (primary fig) = scatters ?ax"
    using plot_hr_diagram_scatters draw by fastforce
  have g: "getitem df ''Star type label'' = Inr ?labels" "getitem df ''Marker size'' = Inr ?sizes"
    "getitem df ''Temperature (K)'' = Inr ts" "getitem df ''Absolute magnitude(Mv)'' = Inr ms"
    using ts ms by (simp_all add: df getitem_classified)
  from draw g card lab each fig show ?thesis by blast
qed

theorem scatter_series_by_label_witness:
  "wf_frame three_stars \<and>
   map_star_types three_stars = Inr (classified three_stars [3, 0, 3]) \<and>
   (\<exists>ax. draw_series (classified three_stars [3, 0, 3]) new_axes = Inr ax \<and>
      length (scatters ax) = 2 \<and>
      map sc_label (scatters ax) = [Str ''Main Sequence'', Str ''Red Dwarf''])"
proof -
  from scatter_series_by_label[OF three_stars_facts]
  obtain ax labels where ax: "draw_series (classified three_stars [3, 0, 3]) new_axes = Inr ax"
    and l: "getitem (classified three_stars [3, 0, 3]) ''Star type label'' = Inr labels"
    and n: "length (scatters ax) = card (set labels)"
    and u: "map sc_label (scatters ax) = unique labels"
    by blast
  from l have labels: "labels = [Str ''Main Sequence'', Str ''Red Dwarf'', Str ''Main Sequence'']"
    by (simp add: getitem_classified spec_label_def spec_table_def)
  have "card (set labels) = 2" "unique labels = [Str ''Main Sequence'', Str ''Red Dwarf'']"
    by (simp_all add: labels unique_def insert_commute)
  with ax n u three_stars_facts(1,2) show ?thesis by auto
qed






text \<open>
  Claim C8. On the table of a file with the five required columns and no row, the
  loader succeeds, the classifier returns the table with three derived columns of no
  cell, and the loop draws no series; but the minimum of the empty temperature column
  is NaN, \<^verbatim>\<open>set_xlim\<close> refuses it, and the ValueError leaves the renderer and the
  script: no figure is produced.
\<close>

theorem empty_table_crashes:
  "load_data (Table header_only) empty_page = (Some header_only, empty_page) \<and>
   map_star_types header_only =
     Inr (header_only @ [(''Star type label'', []), (''Marker size'', []), (''Color'', [])]) \<and>
   draw_series (header_only @ [(''Star type label'', []), (''Marker size'', []), (''Color'', [])])
     new_axes = Inr new_axes \<and>
   plot_hr_diagram (header_only @ [(''Star type label'', []), (''Marker size'', []), (''Color'', [])])
     = Inl ValueError \<and>
   main_app (Some (Table header_only)) empty_page = Inl ValueError"
proof -
  let ?df = "header_only @ [(''Star type label'', []), (''Marker size'', []), (''Color'', [])]"
  have c: "classified header_only [] = ?df"
    by (simp add: classified_def setitem_def header_only_def required_columns_def)
  have m: "map_star_types header_only = Inr ?df"
    using map_star_types_codes[OF header_only_facts(3)] c by simp
  have d: "draw_series ?df new_axes = Inr new_axes"
    using draw_series_classified[OF header_only_facts(2,3) _ header_only_facts(4,5), of new_axes]
    by (simp add: c unique_def new_axes_def)
  have g: "getitem ?df ''Temperature (K)'' = Inr []"
    "getitem ?df ''Absolute magnitude(Mv)'' = Inr []"
    using header_only_facts(4,5) by (simp_all add: c[symmetric] getitem_classified)
  have p: "plot_hr_diagram ?df = Inl ValueError"
    unfolding plot_hr_diagram_def Let_def
    by (simp add: d g series_min_def series_max_def scaled_def set_xlim_def)
  show ?thesis
    by (simp add: main_app_def header_only_facts(1) m d p)
qed



text \<open>
  Claim C10. For two tables that differ only in the cells of the luminosity column, the
  script ends in the same way, with the same page and the same figure; the classifier
  fails alike or derives the same three columns, and the renderer returns the same
  result on the two classified tables.
\<close>

theorem luminosity_not_read:
  assumes "same_except ''Luminosity(L/Lo)'' df1 df2"
  shows "main_app (Some (Table df1)) u = main_app (Some (Table df2)) u \<and>
         map_sum id (\<lambda>d. (getitem d ''Star type label'', getitem d ''Marker size'', getitem d ''Color''))
           (map_star_types df1) =
         map_sum id (\<lambda>d. (getitem d ''Star type label'', getitem d ''Marker size'', getitem d ''Color''))
           (map_star_types df2) \<and>
         bind (map_star_types df1) plot_hr_diagram = bind (map_star_types df2) plot_hr_diagram"
proof -
  from map_star_types_same[OF assms]
  have cls: "map_sum id (\<lambda>d. (getitem d ''Star type label'', getitem d ''Marker size'', getitem d ''Color''))
           (map_star_types df1) =
         map_sum id (\<lambda>d. (getitem d ''Star type label'', getitem d ''Marker size'', getitem d ''Color''))
           (map_star_types df2)"
  proof
    assume "\<exists>e. map_star_types df1 = Inl e \<and> map_star_types df2 = Inl e"
    then show ?thesis by auto
  next
    assume "\<exists>a b. map_star_types df1 = Inr a \<and> map_star_types df2 = Inr b \<and>
                 same_except ''Luminosity(L/Lo)'' a b"
    then obtain a b where ab: "map_star_types df1 = Inr a" "map_star_types df2 = Inr b"
      "same_except ''Luminosity(L/Lo)'' a b" by blast
    have "getitem a ''Star type label'' = getitem b ''Star type label''"
      "getitem a ''Marker size'' = getitem b ''Marker size''"
      "getitem a ''Color'' = getitem b ''Color''"
      by (rule same_except_getitem[OF ab(3)], simp)+
    with ab show ?thesis by simp
  qed
  from map_star_types_same[OF assms]
  have plt: "bind (map_star_types df1) f = bind (map_star_types df2) f"
    if "\<And>a b. same_except ''Luminosity(L/Lo)'' a b \<Longrightarrow> f a = f b" for f :: "dataframe \<Rightarrow> py_error + 'x"
    using that by auto
  have p1: "bind (map_star_types df1) plot_hr_diagram = bind (map_star_types df2) plot_hr_diagram"
    by (rule plt) (rule plot_hr_diagram_same)
  have p2: "bind (map_star_types df1) (\<lambda>df. bind (plot_hr_diagram df) (\<lambda>fig. Inr (st_pyplot fig u)))
          = bind (map_star_types df2) (\<lambda>df. bind (plot_hr_diagram df) (\<lambda>fig. Inr (st_pyplot fig u)))"
    by (rule plt) (simp add: plot_hr_diagram_same)
  have "columns df1 = columns df2"
    by (rule same_except_columns[OF assms])
  then have run: "main_app (Some (Table df1)) u = main_app (Some (Table df2)) u"
    using p2 by (simp add: main_app_def load_data_def read_csv_def)
  from run cls p1 show ?thesis by simp
qed

theorem luminosity_not_read_witness:
  "same_except ''Luminosity(L/Lo)'' sun sun_brighter \<and> sun \<noteq> sun_brighter \<and>
   main_app (Some (Table sun)) empty_page = main_app (Some (Table sun_brighter)) empty_page"
proof -
  have h: "same_except ''Luminosity(L/Lo)'' sun sun_brighter"
    by (simp add: same_except_def sun_def sun_brighter_def setitem_def)
  have d: "sun \<noteq> sun_brighter"
    by (simp add: sun_def sun_brighter_def setitem_def)
  from luminosity_not_read[OF h, of empty_page] h d show ?thesis by simp
qed

end
